theory Spec2Isabelle
  imports Main
begin

section \<open>Python values used by csv2txt\<close>

text \<open>
  A Python \<open>str\<close> is a sequence of Unicode code points and \<open>len\<close> counts code points,
  so a string is modelled as a list of code points (natural numbers).  The default border
  glyphs of the program lie outside ASCII; with this model each of them is one element.
  \<open>py\<close> turns an ASCII literal into such a string.
\<close>

type_synonym str = "nat list"

definition py :: "string \<Rightarrow> str" where
  "py cs = map of_char cs"

datatype error = ValueError | TypeError | IndexError | CsvError

text \<open>Sequencing of computations that may raise: the first exception wins.\<close>

fun map_err :: "('a \<Rightarrow> error + 'b) \<Rightarrow> 'a list \<Rightarrow> error + 'b list" where
  "map_err f [] = Inr []"
| "map_err f (x # xs) =
     (case f x of
        Inl e \<Rightarrow> Inl e
      | Inr y \<Rightarrow> (case map_err f xs of Inl e \<Rightarrow> Inl e | Inr ys \<Rightarrow> Inr (y # ys)))"

text \<open>\<open>max(iterable)\<close> raises \<open>ValueError\<close> on an empty iterable.\<close>

definition py_max :: "int list \<Rightarrow> error + int" where
  "py_max xs = (case xs of [] \<Rightarrow> Inl ValueError | x # ys \<Rightarrow> Inr (fold max ys x))"

text \<open>\<open>xs[i]\<close> for an index \<open>i \<ge> 0\<close>: \<open>IndexError\<close> when out of range.\<close>

definition py_index :: "'a list \<Rightarrow> nat \<Rightarrow> error + 'a" where
  "py_index xs i = (if i < length xs then Inr (xs ! i) else Inl IndexError)"

text \<open>\<open>t * n\<close> for a string or list \<open>t\<close>: empty when \<open>n \<le> 0\<close>.\<close>

definition str_mul :: "'a list \<Rightarrow> int \<Rightarrow> 'a list" where
  "str_mul t n = concat (replicate (nat n) t)"

text \<open>\<open>sep.join(parts)\<close>.\<close>

fun str_join :: "str \<Rightarrow> str list \<Rightarrow> str" where
  "str_join sep [] = []"
| "str_join sep [p] = p"
| "str_join sep (p # q # ps) = p @ sep @ str_join sep (q # ps)"

text \<open>
  \<open>text.replace(old, new)\<close>: the occurrences of \<open>old\<close> are found from left to right and
  do not overlap; an empty \<open>old\<close> matches in front of every character and at the end.
\<close>

fun str_replace :: "str \<Rightarrow> str \<Rightarrow> str \<Rightarrow> str" where
  "str_replace old new [] = (if old = [] then new else [])"
| "str_replace old new (c # cs) =
     (if old = [] then new @ c # str_replace old new cs
      else if take (length old) (c # cs) = old
           then new @ str_replace old new (drop (length old - 1) cs)
           else c # str_replace old new cs)"

text \<open>The code points for which \<open>str.isspace\<close> holds.\<close>

definition str_isspace :: "nat \<Rightarrow> bool" where
  "str_isspace c \<longleftrightarrow>
     (9 \<le> c \<and> c \<le> 13) \<or> (28 \<le> c \<and> c \<le> 32) \<or> c = 133 \<or> c = 160 \<or> c = 5760 \<or>
     (8192 \<le> c \<and> c \<le> 8202) \<or> c = 8232 \<or> c = 8233 \<or> c = 8239 \<or> c = 8287 \<or> c = 12288"

text \<open>\<open>text.split()\<close>: the maximal runs of characters that are not whitespace.\<close>

fun split_ws :: "str \<Rightarrow> str \<Rightarrow> str list" where
  "split_ws cur [] = (if cur = [] then [] else [cur])"
| "split_ws cur (c # cs) =
     (if str_isspace c then (if cur = [] then split_ws [] cs else cur # split_ws [] cs)
      else split_ws (cur @ [c]) cs)"

definition str_split :: "str \<Rightarrow> str list" where
  "str_split text = split_ws [] text"

text \<open>
  \<open>text.splitlines()\<close>: the line boundaries are LF, VT, FF, CR, CR LF, FS, GS, RS, NEL,
  LS and PS; the boundaries are not kept, and a final boundary opens no further line.
\<close>

definition is_linebreak :: "nat \<Rightarrow> bool" where
  "is_linebreak c \<longleftrightarrow>
     (10 \<le> c \<and> c \<le> 13) \<or> (28 \<le> c \<and> c \<le> 30) \<or> c = 133 \<or> c = 8232 \<or> c = 8233"

fun splitlines_from :: "str \<Rightarrow> str \<Rightarrow> str list" where
  "splitlines_from cur [] = (if cur = [] then [] else [cur])"
| "splitlines_from cur (c # cs) =
     (if is_linebreak c then
        (case cs of
           [] \<Rightarrow> [cur]
         | d # ds \<Rightarrow> if c = 13 \<and> d = 10 then cur # splitlines_from [] ds
                    else cur # splitlines_from [] (d # ds))
      else splitlines_from (cur @ [c]) cs)"

definition str_splitlines :: "str \<Rightarrow> str list" where
  "str_splitlines text = splitlines_from [] text"

text \<open>
  \<open>ljust\<close>, \<open>rjust\<close> and \<open>center\<close> pad with spaces up to \<open>width\<close> and return the text
  unchanged when it is already that long.  \<open>center\<close> puts
  \<open>pad // 2 + (pad & width & 1)\<close> spaces on the left: the odd space goes to the left when
  the width is odd and to the right when it is even.
\<close>

definition str_ljust :: "str \<Rightarrow> int \<Rightarrow> str" where
  "str_ljust text width = text @ replicate (nat (width - int (length text))) 32"

definition str_rjust :: "str \<Rightarrow> int \<Rightarrow> str" where
  "str_rjust text width = replicate (nat (width - int (length text))) 32 @ text"

definition str_center :: "str \<Rightarrow> int \<Rightarrow> str" where
  "str_center text width =
     (let marg = width - int (length text) in
      if marg \<le> 0 then text
      else let left = marg div 2 + (if odd marg \<and> odd width then 1 else 0)
           in replicate (nat left) 32 @ text @ replicate (nat (marg - left)) 32)"

text \<open>\<open>text.expandtabs(8)\<close>: the column restarts after LF and CR.\<close>

fun expandtabs_from :: "nat \<Rightarrow> str \<Rightarrow> str" where
  "expandtabs_from col [] = []"
| "expandtabs_from col (c # cs) =
     (if c = 9 then replicate (8 - col mod 8) 32 @ expandtabs_from (col + (8 - col mod 8)) cs
      else c # expandtabs_from (if c = 10 \<or> c = 13 then 0 else col + 1) cs)"

section \<open>The library function \<open>textwrap.wrap\<close>\<close>

text \<open>
  \<open>wrap(text, width)\<close> builds a \<open>TextWrapper\<close> with the default options (tabs expanded,
  whitespace replaced by spaces, whitespace dropped at line ends, long words broken, breaks
  allowed after hyphens, no indentation, no line limit) and calls its \<open>wrap\<close> method.  The
  model follows \<open>_munge_whitespace\<close>, \<open>_split\<close>, \<open>_handle_long_word\<close> and
  \<open>_wrap_chunks\<close> of the library.  The pattern \<open>wordsep_re\<close> classifies letters and
  digits with the Unicode tables; the model knows the ASCII letters, digits and underscore
  only, and takes every code point above 127 for a character that is neither.
\<close>

definition tw_whitespace :: "nat \<Rightarrow> bool" where
  "tw_whitespace c \<longleftrightarrow> (9 \<le> c \<and> c \<le> 13) \<or> c = 32"

definition munge_whitespace :: "str \<Rightarrow> str" where
  "munge_whitespace text = map (\<lambda>c. if tw_whitespace c then 32 else c) (expandtabs_from 0 text)"

definition re_letter :: "nat \<Rightarrow> bool" where
  "re_letter c \<longleftrightarrow> (65 \<le> c \<and> c \<le> 90) \<or> (97 \<le> c \<and> c \<le> 122) \<or> c = 95"

definition re_word :: "nat \<Rightarrow> bool" where
  "re_word c \<longleftrightarrow> re_letter c \<or> (48 \<le> c \<and> c \<le> 57)"

definition word_punct :: "nat \<Rightarrow> bool" where
  "word_punct c \<longleftrightarrow> re_word c \<or> c = 33 \<or> c = 34 \<or> c = 39 \<or> c = 38 \<or> c = 46 \<or> c = 44 \<or> c = 63"

text \<open>The lookahead \<open>-{2,}\w\<close>: at least two hyphens, then a word character.\<close>

definition emdash_ahead :: "str \<Rightarrow> bool" where
  "emdash_ahead rest \<longleftrightarrow>
     2 \<le> length (takeWhile (\<lambda>c. c = 45) rest) \<and>
     (case dropWhile (\<lambda>c. c = 45) rest of [] \<Rightarrow> False | c # _ \<Rightarrow> re_word c)"

text \<open>
  A hyphen ends a chunk when two letters, or letter-hyphen-letter, stand in front of it and
  letter-letter or letter-hyphen-letter follow it.  \<open>seen\<close> holds the text in front of the
  hyphen, nearest character first.
\<close>

definition hyphen_break :: "str \<Rightarrow> str \<Rightarrow> bool" where
  "hyphen_break seen after \<longleftrightarrow>
     (case seen of
        x1 # x2 # xs \<Rightarrow>
          re_letter x1 \<and>
          (re_letter x2 \<or> (x2 = 45 \<and> (case xs of [] \<Rightarrow> False | x3 # _ \<Rightarrow> re_letter x3)))
      | _ \<Rightarrow> False) \<and>
     (case after of
        l1 # l2 # ls \<Rightarrow>
          re_letter l1 \<and>
          (re_letter l2 \<or> (l2 = 45 \<and> (case ls of [] \<Rightarrow> False | l3 # _ \<Rightarrow> re_letter l3)))
      | _ \<Rightarrow> False)"

text \<open>
  The third alternative of the pattern: the shortest run of non-whitespace characters that
  ends with a breaking hyphen, in front of whitespace or the end of the text, or in front of an
  em-dash.  \<open>acc\<close> is the run read so far.
\<close>

fun word_chunk :: "str \<Rightarrow> str \<Rightarrow> str \<Rightarrow> str \<times> str" where
  "word_chunk seen acc [] = (acc, [])"
| "word_chunk seen acc (c # cs) =
     (if c = 45 \<and> hyphen_break seen cs then (acc @ [c], cs)
      else if tw_whitespace c then (acc, c # cs)
      else if (case seen of [] \<Rightarrow> False | b # _ \<Rightarrow> word_punct b) \<and> emdash_ahead (c # cs)
           then (acc, c # cs)
      else word_chunk (c # seen) (acc @ [c]) cs)"

lemma word_chunk_length: "length (snd (word_chunk seen acc cs)) \<le> length cs"
  by (induction seen acc cs rule: word_chunk.induct) auto

text \<open>
  \<open>wordsep_re.split(text)\<close> without its empty pieces: the matches of the pattern tile the
  text, each one a run of whitespace, an em-dash between words, or a word chunk.
\<close>

function split_from :: "str \<Rightarrow> str \<Rightarrow> str list" where
  "split_from seen [] = []"
| "split_from seen (c # cs) =
     (if tw_whitespace c then
        takeWhile tw_whitespace (c # cs) #
        split_from (rev (takeWhile tw_whitespace (c # cs)) @ seen) (dropWhile tw_whitespace cs)
      else if c = 45 \<and> (case seen of [] \<Rightarrow> False | b # _ \<Rightarrow> word_punct b) \<and> emdash_ahead (c # cs)
      then
        takeWhile (\<lambda>d. d = 45) (c # cs) #
        split_from (rev (takeWhile (\<lambda>d. d = 45) (c # cs)) @ seen) (dropWhile (\<lambda>d. d = 45) cs)
      else
        fst (word_chunk (c # seen) [c] cs) #
        split_from (rev (fst (word_chunk (c # seen) [c] cs)) @ seen)
                   (snd (word_chunk (c # seen) [c] cs)))"
  by pat_completeness auto
termination
proof (relation "measure (\<lambda>(seen, text). length text)", goal_cases)
  case 1
  show ?case by simp
next
  case (2 seen c cs)
  show ?case by (simp add: le_imp_less_Suc length_dropWhile_le)
next
  case (3 seen c cs)
  show ?case by (simp add: le_imp_less_Suc length_dropWhile_le)
next
  case (4 seen c cs)
  show ?case by (simp add: le_imp_less_Suc word_chunk_length)
qed

definition split_chunks :: "str \<Rightarrow> str list" where
  "split_chunks text = split_from [] (munge_whitespace text)"

text \<open>\<open>chunk.strip() == ''\<close>.\<close>

definition blank :: "str \<Rightarrow> bool" where
  "blank chunk \<longleftrightarrow> list_all str_isspace chunk"

text \<open>\<open>chunk.rfind('-', 0, stop)\<close>: the last hyphen in front of \<open>stop\<close>, or \<open>-1\<close>.\<close>

definition rfind_hyphen :: "str \<Rightarrow> nat \<Rightarrow> int" where
  "rfind_hyphen chunk stop =
     (case filter (\<lambda>i. chunk ! i = 45) (rev [0 ..< min stop (length chunk)]) of
        [] \<Rightarrow> - 1
      | i # _ \<Rightarrow> int i)"

text \<open>
  \<open>_handle_long_word\<close>: the next chunk fits on no line, so as much of it as the current
  line can take is cut off, after the last hyphen in that part where there is one with a
  character other than a hyphen in front of it.  Returns the line and the remaining chunks.
\<close>

fun handle_long_word :: "str list \<Rightarrow> str list \<Rightarrow> int \<Rightarrow> int \<Rightarrow> str list \<times> str list" where
  "handle_long_word [] cur_line cur_len width = (cur_line, [])"
| "handle_long_word (chunk # chunks) cur_line cur_len width =
     (let space_left = (if width < 1 then 1 else width - cur_len);
          hyphen = rfind_hyphen chunk (nat space_left);
          end = (if int (length chunk) > space_left \<and> hyphen > 0 \<and>
                    list_ex (\<lambda>c. c \<noteq> 45) (take (nat hyphen) chunk)
                 then hyphen + 1 else space_left)
      in (cur_line @ [take (nat end) chunk], drop (nat end) chunk # chunks))"

text \<open>The inner loop of \<open>_wrap_chunks\<close>: chunks are moved to the line while they fit.\<close>

fun fill_line :: "int \<Rightarrow> str list \<Rightarrow> int \<Rightarrow> str list \<Rightarrow> str list \<times> int \<times> str list" where
  "fill_line width cur_line cur_len [] = (cur_line, cur_len, [])"
| "fill_line width cur_line cur_len (chunk # chunks) =
     (if cur_len + int (length chunk) \<le> width
      then fill_line width (cur_line @ [chunk]) (cur_len + int (length chunk)) chunks
      else (cur_line, cur_len, chunk # chunks))"

text \<open>
  One round of the outer loop of \<open>_wrap_chunks\<close>: drop a whitespace chunk at the start of
  a line that is not the first, fill the line, break a chunk that fits on no line, drop a
  whitespace chunk at the end, and store the line unless it is empty.
\<close>

definition wrap_line :: "int \<Rightarrow> str list \<Rightarrow> str list \<Rightarrow> str list \<times> str list" where
  "wrap_line width lines chunks =
     (let chunks1 = (case chunks of
                       chunk # rest \<Rightarrow> if blank chunk \<and> lines \<noteq> [] then rest else chunks
                     | [] \<Rightarrow> chunks);
          (cur_line, cur_len, chunks2) = fill_line width [] 0 chunks1;
          (cur_line1, chunks3) =
            (case chunks2 of
               chunk # rest \<Rightarrow>
                 if int (length chunk) > width
                 then handle_long_word chunks2 cur_line cur_len width
                 else (cur_line, chunks2)
             | [] \<Rightarrow> (cur_line, chunks2));
          cur_line2 = (if cur_line1 \<noteq> [] \<and> blank (last cur_line1)
                       then butlast cur_line1 else cur_line1)
      in (if cur_line2 \<noteq> [] then lines @ [concat cur_line2] else lines, chunks3))"

text \<open>
  The outer loop of \<open>_wrap_chunks\<close> runs while chunks are left.  Every round takes at
  least one character or one chunk away, which is the termination argument below; the
  width is positive there, since \<open>_wrap_chunks\<close> raises for any other width before it
  enters the loop.
\<close>

definition chunks_size :: "str list \<Rightarrow> nat" where
  "chunks_size chunks = sum_list (map length chunks) + length chunks"

lemma chunks_size_simps [simp]:
  "chunks_size [] = 0"
  "chunks_size (c # cs) = Suc (length c + chunks_size cs)"
  by (simp_all add: chunks_size_def)

lemma fill_line_size:
  "fill_line width cur_line cur_len chunks = (cur_line', cur_len', chunks') \<Longrightarrow>
   chunks_size chunks' \<le> chunks_size chunks \<and>
   (chunks_size chunks' = chunks_size chunks \<longrightarrow> cur_len' = cur_len) \<and>
   (\<forall>chunk rest. chunks' = chunk # rest \<longrightarrow> width < cur_len' + int (length chunk))"
proof (induction width cur_line cur_len chunks rule: fill_line.induct)
  case (1 width cur_line cur_len)
  then show ?case by simp
next
  case (2 width cur_line cur_len chunk chunks)
  show ?case
  proof (cases "cur_len + int (length chunk) \<le> width")
    case True
    with 2 show ?thesis by fastforce
  next
    case False
    with 2 show ?thesis by auto
  qed
qed

lemma handle_long_word_size:
  assumes "handle_long_word (chunk # rest) cur_line 0 width = (cur_line', chunks')"
    and "0 < width" and "width < int (length chunk)"
  shows "chunks_size chunks' < chunks_size (chunk # rest)"
proof -
  define e where "e = (if 0 < rfind_hyphen chunk (nat width) \<and>
                    list_ex (\<lambda>c. c \<noteq> 45) (take (nat (rfind_hyphen chunk (nat width))) chunk)
                 then rfind_hyphen chunk (nat width) + 1 else width)"
  have "0 < e" using assms(2) by (simp add: e_def)
  moreover have "chunks' = drop (nat e) chunk # rest"
    using assms by (auto simp: Let_def e_def split: if_splits)
  ultimately show ?thesis using assms(2,3) by (cases chunk) auto
qed

lemma handle_long_word_size_le:
  "chunks_size (snd (handle_long_word chunks cur_line cur_len width)) \<le> chunks_size chunks"
  by (cases chunks) (auto simp: Let_def)

lemma wrap_line_size:
  assumes "chunks \<noteq> []" and "0 < width"
  shows "chunks_size (snd (wrap_line width lines chunks)) < chunks_size chunks"
proof -
  define chunks1 where "chunks1 = (case chunks of
                       chunk # rest \<Rightarrow> if blank chunk \<and> lines \<noteq> [] then rest else chunks
                     | [] \<Rightarrow> chunks)"
  obtain cur_line cur_len chunks2
    where f: "fill_line width [] 0 chunks1 = (cur_line, cur_len, chunks2)"
    by (cases "fill_line width [] 0 chunks1") auto
  define r where "r = (case chunks2 of
               chunk # rest \<Rightarrow>
                 if int (length chunk) > width
                 then handle_long_word chunks2 cur_line cur_len width
                 else (cur_line, chunks2)
             | [] \<Rightarrow> (cur_line, chunks2))"
  have s: "snd (wrap_line width lines chunks) = snd r"
    by (simp add: wrap_line_def Let_def chunks1_def[symmetric] f r_def[symmetric]
             split: prod.splits)
  have c1: "chunks_size chunks1 \<le> chunks_size chunks"
    using assms(1) by (cases chunks) (auto simp: chunks1_def)
  note fl = fill_line_size[OF f]
  show ?thesis
  proof (cases chunks2)
    case Nil
    then have "snd r = []" by (simp add: r_def)
    with assms(1) s show ?thesis by (cases chunks) auto
  next
    case (Cons chunk rest)
    show ?thesis
    proof (cases "chunks_size chunks2 = chunks_size chunks1")
      case True
      with fl have z: "cur_len = 0" by simp
      with fl Cons have big: "width < int (length chunk)" by simp
      obtain cl' ch' where h: "handle_long_word (chunk # rest) cur_line 0 width = (cl', ch')"
        by (cases "handle_long_word (chunk # rest) cur_line 0 width") auto
      from handle_long_word_size[OF h assms(2) big] have "chunks_size ch' < chunks_size chunks2"
        using Cons by simp
      moreover have "snd r = ch'" using Cons big h z by (simp add: r_def)
      ultimately show ?thesis using s fl c1 by simp
    next
      case False
      with fl have lt: "chunks_size chunks2 < chunks_size chunks1" by simp
      have "chunks_size (snd r) \<le> chunks_size chunks2"
        unfolding r_def using handle_long_word_size_le[of chunks2 cur_line cur_len width]
        by (auto simp del: handle_long_word.simps split: list.splits)
      with lt c1 s show ?thesis by simp
    qed
  qed
qed

function wrap_chunks :: "int \<Rightarrow> str list \<Rightarrow> str list \<Rightarrow> str list" where
  "wrap_chunks width lines chunks =
     (if chunks = [] \<or> width \<le> 0 then lines
      else wrap_chunks width (fst (wrap_line width lines chunks))
                             (snd (wrap_line width lines chunks)))"
  by pat_completeness auto
termination
  by (relation "measure (\<lambda>(width, lines, chunks). chunks_size chunks)")
     (auto simp: case_prod_unfold intro: wrap_line_size)

declare wrap_chunks.simps [simp del]

text \<open>
  \<open>textwrap.wrap(text, width)\<close>.  The chunks are computed first; \<open>_wrap_chunks\<close> then
  raises \<open>ValueError\<close> for a width that is not positive, whatever the text.
\<close>

definition wrap :: "str \<Rightarrow> int \<Rightarrow> error + str list" where
  "wrap text width =
     (let chunks = split_chunks text
      in if width \<le> 0 then Inl ValueError else Inr (wrap_chunks width [] chunks))"

section \<open>The library function \<open>csv.reader\<close>\<close>

text \<open>
  \<open>reader(lines, delimiter = sep, skipinitialspace = True)\<close> as CPython 3.11 implements
  it: the other dialect options keep their defaults (quote character \<open>"\<close>, doubled quotes,
  no escape character, not strict, minimal quoting).  The reader is a state machine fed
  one character at a time, with an end-of-line signal (\<open>None\<close> here) after each line.  The
  states that only an escape character can reach are left out.
\<close>

datatype parser_state =
  START_RECORD | START_FIELD | IN_FIELD | IN_QUOTED_FIELD | QUOTE_IN_QUOTED_FIELD | EAT_CRNL

record reader =
  state :: parser_state
  field_list :: "str list"
  field :: str

definition field_limit :: nat where
  "field_limit = 131072"

definition parse_reset :: reader where
  "parse_reset = \<lparr>state = START_RECORD, field_list = [], field = []\<rparr>"

definition parse_save_field :: "reader \<Rightarrow> reader" where
  "parse_save_field self = self\<lparr>field_list := field_list self @ [field self], field := []\<rparr>"

definition parse_add_char :: "reader \<Rightarrow> nat \<Rightarrow> error + reader" where
  "parse_add_char self c =
     (if length (field self) \<ge> field_limit then Inl CsvError
      else Inr (self\<lparr>field := field self @ [c]\<rparr>))"

definition end_of_field :: "reader \<Rightarrow> nat option \<Rightarrow> error + reader" where
  "end_of_field self c =
     Inr ((parse_save_field self)\<lparr>state := (if c = None then START_RECORD else EAT_CRNL)\<rparr>)"

definition newline_or_eol :: "nat option \<Rightarrow> bool" where
  "newline_or_eol c \<longleftrightarrow> c = Some 10 \<or> c = Some 13 \<or> c = None"

text \<open>The state \<open>START_FIELD\<close>, which \<open>START_RECORD\<close> falls through to.\<close>

definition start_field :: "nat \<Rightarrow> reader \<Rightarrow> nat option \<Rightarrow> error + reader" where
  "start_field delimiter self c =
     (if newline_or_eol c then end_of_field self c
      else if c = Some 34 then Inr (self\<lparr>state := IN_QUOTED_FIELD\<rparr>)
      else if c = Some 32 then Inr self
      else if c = Some delimiter then Inr (parse_save_field self)
      else (case c of
              None \<Rightarrow> Inr self
            | Some ch \<Rightarrow>
                (case parse_add_char self ch of
                   Inl e \<Rightarrow> Inl e
                 | Inr self' \<Rightarrow> Inr (self'\<lparr>state := IN_FIELD\<rparr>))))"

definition parse_process_char :: "nat \<Rightarrow> reader \<Rightarrow> nat option \<Rightarrow> error + reader" where
  "parse_process_char delimiter self c =
     (case state self of
        START_RECORD \<Rightarrow>
          if c = None then Inr self
          else if c = Some 10 \<or> c = Some 13 then Inr (self\<lparr>state := EAT_CRNL\<rparr>)
          else start_field delimiter (self\<lparr>state := START_FIELD\<rparr>) c
      | START_FIELD \<Rightarrow> start_field delimiter self c
      | IN_FIELD \<Rightarrow>
          if newline_or_eol c then end_of_field self c
          else if c = Some delimiter
            then Inr ((parse_save_field self)\<lparr>state := START_FIELD\<rparr>)
          else (case c of None \<Rightarrow> Inr self | Some ch \<Rightarrow> parse_add_char self ch)
      | IN_QUOTED_FIELD \<Rightarrow>
          (case c of
             None \<Rightarrow> Inr self
           | Some ch \<Rightarrow>
               if ch = 34 then Inr (self\<lparr>state := QUOTE_IN_QUOTED_FIELD\<rparr>)
               else parse_add_char self ch)
      | QUOTE_IN_QUOTED_FIELD \<Rightarrow>
          if c = Some 34 then
            (case parse_add_char self 34 of
               Inl e \<Rightarrow> Inl e
             | Inr self' \<Rightarrow> Inr (self'\<lparr>state := IN_QUOTED_FIELD\<rparr>))
          else if c = Some delimiter
            then Inr ((parse_save_field self)\<lparr>state := START_FIELD\<rparr>)
          else if newline_or_eol c then end_of_field self c
          else (case c of
                  None \<Rightarrow> Inr self
                | Some ch \<Rightarrow>
                    (case parse_add_char self ch of
                       Inl e \<Rightarrow> Inl e
                     | Inr self' \<Rightarrow> Inr (self'\<lparr>state := IN_FIELD\<rparr>)))
      | EAT_CRNL \<Rightarrow>
          if c = Some 10 \<or> c = Some 13 then Inr self
          else if c = None then Inr (self\<lparr>state := START_RECORD\<rparr>)
          else Inl CsvError)"

text \<open>The characters of one line, in order; the first error ends the line.\<close>

fun process_line :: "nat \<Rightarrow> reader \<Rightarrow> str \<Rightarrow> error + reader" where
  "process_line delimiter self [] = Inr self"
| "process_line delimiter self (c # cs) =
     (case parse_process_char delimiter self (Some c) of
        Inl e \<Rightarrow> Inl e
      | Inr self' \<Rightarrow> process_line delimiter self' cs)"

text \<open>
  The rows of the reader, as a list comprehension over it collects them.  A record is
  complete when the machine is back in \<open>START_RECORD\<close> after the end-of-line signal, and
  the next one starts from a reset machine; otherwise the next line continues the record.
  When the lines run out inside a record (a field has characters, or a quoted field is
  open), the field is saved and the record returned.
\<close>

fun read_records :: "nat \<Rightarrow> reader \<Rightarrow> str list \<Rightarrow> error + str list list" where
  "read_records delimiter self [] =
     (if field self \<noteq> [] \<or> state self = IN_QUOTED_FIELD
      then Inr [field_list (parse_save_field self)] else Inr [])"
| "read_records delimiter self (line # lines) =
     (case process_line delimiter self line of
        Inl e \<Rightarrow> Inl e
      | Inr self1 \<Rightarrow>
          (case parse_process_char delimiter self1 None of
             Inl e \<Rightarrow> Inl e
           | Inr self2 \<Rightarrow>
               if state self2 = START_RECORD then
                 (case read_records delimiter parse_reset lines of
                    Inl e \<Rightarrow> Inl e
                  | Inr rows \<Rightarrow> Inr (field_list self2 # rows))
               else read_records delimiter self2 lines))"

text \<open>The delimiter has to be a string of one character: \<open>TypeError\<close> otherwise.\<close>

definition csv_reader :: "str \<Rightarrow> str list \<Rightarrow> error + str list list" where
  "csv_reader delimiter lines =
     (case delimiter of
        [d] \<Rightarrow> read_records d parse_reset lines
      | _ \<Rightarrow> Inl TypeError)"

section \<open>The class \<open>CSV2TXT\<close>\<close>

datatype Align = LEFT | RIGHT | CENTER

datatype VAlign = TOP | MIDDLE | BOTTOM

record CSV2TXT =
  border_symbols :: str
  spacing :: int
  separator :: str
  max_width :: "int option"
  align :: "Align list option"
  valign :: VAlign
  title_align :: Align

text \<open>
  The default field values.  The border symbols are the eleven box-drawing characters
  U+2500, U+2502, U+250C, U+252C, U+2510, U+251C, U+253C, U+2524, U+2514, U+2534 and
  U+2518, separated by single spaces.
\<close>

definition default_border_symbols :: str where
  "default_border_symbols =
     [9472, 32, 9474, 32, 9484, 32, 9516, 32, 9488, 32, 9500, 32, 9532, 32, 9508, 32,
      9492, 32, 9524, 32, 9496]"

definition default_fields :: CSV2TXT where
  "default_fields =
     \<lparr>border_symbols = default_border_symbols, spacing = 1, separator = [44],
      max_width = None, align = None, valign = MIDDLE, title_align = CENTER\<rparr>"

definition post_init :: "CSV2TXT \<Rightarrow> CSV2TXT" where
  "post_init self = self\<lparr>spacing := max 0 (spacing self)\<rparr>"

definition escape :: "CSV2TXT \<Rightarrow> str \<Rightarrow> str" where
  "escape self text =
     (let sep = separator self
      in str_replace (92 # sep) sep (str_replace [92, 110] [10] text))"

text \<open>
  The loop of \<open>wrap_cell\<close> over the lines; \<open>if self.max_width\<close> holds for every width
  other than \<open>None\<close> and \<open>0\<close>.
\<close>

fun wrap_lines :: "int option \<Rightarrow> str list \<Rightarrow> str list \<Rightarrow> error + str list" where
  "wrap_lines mw wrapped [] = Inr wrapped"
| "wrap_lines mw wrapped (line # lines) =
     (case mw of
        None \<Rightarrow> wrap_lines mw (wrapped @ [line]) lines
      | Some w \<Rightarrow>
          if w \<noteq> 0 then
            (case wrap line w of
               Inl e \<Rightarrow> Inl e
             | Inr ls \<Rightarrow> wrap_lines mw (wrapped @ ls) lines)
          else wrap_lines mw (wrapped @ [line]) lines)"

definition wrap_cell :: "CSV2TXT \<Rightarrow> str option \<Rightarrow> error + str list" where
  "wrap_cell self text =
     (case text of
        None \<Rightarrow> Inr [[]]
      | Some t \<Rightarrow>
          (let lines = str_splitlines (escape self t)
           in case wrap_lines (max_width self) [] (if lines = [] then [[]] else lines) of
                Inl e \<Rightarrow> Inl e
              | Inr wrapped \<Rightarrow> Inr (if wrapped = [] then [[]] else wrapped)))"

definition align_text :: "str \<Rightarrow> int \<Rightarrow> Align \<Rightarrow> str" where
  "align_text text width a =
     (case a of
        LEFT \<Rightarrow> str_ljust text width
      | RIGHT \<Rightarrow> str_rjust text width
      | CENTER \<Rightarrow> str_center text width)"

definition align_cell :: "CSV2TXT \<Rightarrow> str \<Rightarrow> int \<Rightarrow> nat \<Rightarrow> str" where
  "align_cell self text width column =
     align_text text width
       (case align self of
          None \<Rightarrow> LEFT
        | Some al \<Rightarrow> if column < length al then al ! column else LEFT)"

definition COMMA :: str where
  "COMMA = py ''__COMMA__''"

definition get_rows :: "CSV2TXT \<Rightarrow> str list \<Rightarrow> error + str list list" where
  "get_rows self input =
     (let com = COMMA;
          sep = separator self;
          lines = map (str_replace (92 # sep) com) input
      in case csv_reader sep lines of
           Inl e \<Rightarrow> Inl e
         | Inr rows \<Rightarrow> Inr (map (map (str_replace com sep)) rows))"

section \<open>The method \<open>generate\<close>\<close>

text \<open>The wrapped cells, \<open>[[self.wrap_cell(cell) for cell in row] for row in rows]\<close>.\<close>

definition wrap_rows :: "CSV2TXT \<Rightarrow> str list list \<Rightarrow> error + str list list list" where
  "wrap_rows self rows = map_err (map_err (\<lambda>cell. wrap_cell self (Some cell))) rows"

text \<open>
  A row shorter than \<open>cols\<close> is extended with \<open>[['']] * (cols - len(row))\<close>.  The added
  cells are one list object, which nothing later mutates.
\<close>

definition pad_row :: "int \<Rightarrow> str list list \<Rightarrow> str list list" where
  "pad_row cols row =
     (if int (length row) < cols then row @ str_mul [[[]]] (cols - int (length row)) else row)"

text \<open>\<open>max(len(line) for row in cells for line in row[col])\<close>.\<close>

definition column_width :: "str list list list \<Rightarrow> nat \<Rightarrow> error + int" where
  "column_width cells col =
     (case map_err (\<lambda>row. py_index row col) cells of
        Inl e \<Rightarrow> Inl e
      | Inr column \<Rightarrow> py_max (map (\<lambda>line. int (length line)) (concat column)))"

definition spaced_widths :: "CSV2TXT \<Rightarrow> int list \<Rightarrow> int list" where
  "spaced_widths self cols_width = map (\<lambda>width. width + spacing self * 2) cols_width"

definition total_of :: "int list \<Rightarrow> int" where
  "total_of spaced_cols = sum_list spaced_cols + (int (length spaced_cols) - 1)"

text \<open>The eleven glyphs that \<open>self.border_symbols.split()\<close> is unpacked into.\<close>

record glyphs =
  sym_H :: str
  sym_V :: str
  sym_TL :: str
  sym_TM :: str
  sym_TR :: str
  sym_ML :: str
  sym_MM :: str
  sym_MR :: str
  sym_BL :: str
  sym_BM :: str
  sym_BR :: str

fun unpack_border :: "str list \<Rightarrow> error + glyphs" where
  "unpack_border [h, v, t_l, t_m, t_r, m_l, m_m, m_r, b_l, b_m, b_r] =
     Inr \<lparr>sym_H = h, sym_V = v, sym_TL = t_l, sym_TM = t_m, sym_TR = t_r, sym_ML = m_l,
          sym_MM = m_m, sym_MR = m_r, sym_BL = b_l, sym_BM = b_m, sym_BR = b_r\<rparr>"
| "unpack_border _ = Inl ValueError"

text \<open>The local function \<open>make_separator\<close>, with the variables it closes over.\<close>

definition make_separator :: "str \<Rightarrow> int list \<Rightarrow> str \<Rightarrow> str \<Rightarrow> str \<Rightarrow> str" where
  "make_separator h spaced_cols left center right =
     left @ str_join center (map (str_mul h) spaced_cols) @ right"

text \<open>The first lines of the table: the top border, or the title block.\<close>

definition head_lines :: "CSV2TXT \<Rightarrow> glyphs \<Rightarrow> int list \<Rightarrow> str option \<Rightarrow> str list" where
  "head_lines self g spaced_cols title =
     (case title of
        None \<Rightarrow> [make_separator (sym_H g) spaced_cols (sym_TL g) (sym_TM g) (sym_TR g)]
      | Some t \<Rightarrow>
          if t = [] then [make_separator (sym_H g) spaced_cols (sym_TL g) (sym_TM g) (sym_TR g)]
          else
            [sym_TL g @ str_mul (sym_H g) (total_of spaced_cols) @ sym_TR g,
             sym_V g @ align_text ([32] @ t @ [32]) (total_of spaced_cols) (title_align self)
               @ sym_V g,
             make_separator (sym_H g) spaced_cols (sym_ML g) (sym_TM g) (sym_MR g)])"

text \<open>The vertical padding of one cell of a row of height \<open>max_height\<close>.\<close>

definition spaced_cell :: "VAlign \<Rightarrow> int \<Rightarrow> str list \<Rightarrow> str list" where
  "spaced_cell va max_height col =
     (let delta = max_height - int (length col)
      in if va = TOP then col @ str_mul [[]] delta
         else if va = BOTTOM then str_mul [[]] delta @ col
         else (let top_space = delta div 2;
                   bottom_space = delta - top_space
               in str_mul [[]] top_space @ col @ str_mul [[]] bottom_space))"

text \<open>One column's part of an output line: \<open>cell[line]\<close>, aligned, between the spacing.\<close>

definition line_part :: "CSV2TXT \<Rightarrow> int list \<Rightarrow> nat \<Rightarrow> nat \<times> str list \<Rightarrow> error + str" where
  "line_part self cols_width line p =
     (case py_index (snd p) line of
        Inl e \<Rightarrow> Inl e
      | Inr text \<Rightarrow>
          (case py_index cols_width (fst p) of
             Inl e \<Rightarrow> Inl e
           | Inr w \<Rightarrow>
               Inr (str_mul [32] (spacing self) @ align_cell self text w (fst p)
                    @ str_mul [32] (spacing self))))"

definition row_line :: "CSV2TXT \<Rightarrow> int list \<Rightarrow> str \<Rightarrow> str list list \<Rightarrow> nat \<Rightarrow> error + str" where
  "row_line self cols_width v spaced_cells line =
     (case map_err (line_part self cols_width line) (enumerate 0 spaced_cells) of
        Inl e \<Rightarrow> Inl e
      | Inr parts \<Rightarrow> Inr (v @ str_join v parts @ v))"

text \<open>The output lines of one row; \<open>max(rows_height)\<close> raises for a row without cells.\<close>

definition row_lines :: "CSV2TXT \<Rightarrow> int list \<Rightarrow> str \<Rightarrow> str list list \<Rightarrow> error + str list" where
  "row_lines self cols_width v row =
     (case py_max (map (\<lambda>cell. int (length cell)) row) of
        Inl e \<Rightarrow> Inl e
      | Inr max_height \<Rightarrow>
          map_err (row_line self cols_width v (map (spaced_cell (valign self) max_height) row))
            [0 ..< nat max_height])"

text \<open>The loop over the rows; \<open>middle\<close> follows every row but the last.\<close>

fun body_lines :: "CSV2TXT \<Rightarrow> int list \<Rightarrow> str \<Rightarrow> str \<Rightarrow> str list list list \<Rightarrow> error + str list"
  where
  "body_lines self cols_width v middle [] = Inr []"
| "body_lines self cols_width v middle (row # cells) =
     (case row_lines self cols_width v row of
        Inl e \<Rightarrow> Inl e
      | Inr ls \<Rightarrow>
          (case body_lines self cols_width v middle cells of
             Inl e \<Rightarrow> Inl e
           | Inr below \<Rightarrow> Inr (ls @ (if cells \<noteq> [] then [middle] else []) @ below)))"

text \<open>
  The first statements of \<open>generate\<close> after the test for no rows: the wrapped cells, the
  number of columns \<open>cols\<close>, and the rows padded to it.
\<close>

definition grid :: "CSV2TXT \<Rightarrow> str list list \<Rightarrow> error + int \<times> str list list list" where
  "grid self rows =
     (case wrap_rows self rows of
        Inl e \<Rightarrow> Inl e
      | Inr wrapped \<Rightarrow>
          (case py_max (map (\<lambda>row. int (length row)) rows) of
             Inl e \<Rightarrow> Inl e
           | Inr cols \<Rightarrow> Inr (cols, map (pad_row cols) wrapped)))"

text \<open>The padded cells together with \<open>cols_width\<close>.\<close>

definition layout :: "CSV2TXT \<Rightarrow> str list list \<Rightarrow> error + str list list list \<times> int list" where
  "layout self rows =
     (case grid self rows of
        Inl e \<Rightarrow> Inl e
      | Inr (cols, cells) \<Rightarrow>
          (case map_err (column_width cells) [0 ..< nat cols] of
             Inl e \<Rightarrow> Inl e
           | Inr cols_width \<Rightarrow> Inr (cells, cols_width)))"

text \<open>The body of \<open>generate\<close> from the parsed rows on.\<close>

definition render :: "CSV2TXT \<Rightarrow> str list list \<Rightarrow> str option \<Rightarrow> error + str" where
  "render self rows title =
     (if rows = [] then Inr []
      else
        case layout self rows of
          Inl e \<Rightarrow> Inl e
        | Inr (cells, cols_width) \<Rightarrow>
        let spaced_cols = spaced_widths self cols_width in
        case unpack_border (str_split (border_symbols self)) of
          Inl e \<Rightarrow> Inl e
        | Inr g \<Rightarrow>
        let middle = make_separator (sym_H g) spaced_cols (sym_ML g) (sym_MM g) (sym_MR g);
            bottom = make_separator (sym_H g) spaced_cols (sym_BL g) (sym_BM g) (sym_BR g)
        in
        case body_lines self cols_width (sym_V g) middle cells of
          Inl e \<Rightarrow> Inl e
        | Inr body \<Rightarrow>
            Inr (str_join [10] (head_lines self g spaced_cols title @ body @ [bottom])))"

definition generate :: "CSV2TXT \<Rightarrow> str list \<Rightarrow> str option \<Rightarrow> error + str" where
  "generate self input title =
     (case get_rows self input of
        Inl e \<Rightarrow> Inl e
      | Inr rows \<Rightarrow> render self rows title)"

section \<open>Facts about the helpers\<close>

lemma map_err_Inr:
  "map_err f xs = Inr ys \<Longrightarrow> length ys = length xs \<and> (\<forall>i<length xs. f (xs ! i) = Inr (ys ! i))"
proof (induction xs arbitrary: ys)
  case Nil
  then show ?case by simp
next
  case (Cons x xs)
  then obtain y ys' where y: "f x = Inr y" and ys': "map_err f xs = Inr ys'" and e: "ys = y # ys'"
    by (auto split: sum.splits)
  with Cons.IH[OF ys'] show ?case by (auto simp: nth_Cons split: nat.splits)
qed

lemma py_max_Inr: "py_max xs = Inr m \<longleftrightarrow> xs \<noteq> [] \<and> m = Max (set xs)"
  by (cases xs) (auto simp: py_max_def Max.set_eq_fold[symmetric])

lemma str_join_length:
  "length (str_join c ps) = sum_list (map length ps) + length c * (length ps - 1)"
  by (induction c ps rule: str_join.induct) auto

lemma str_mul_single_length: "length h = 1 \<Longrightarrow> 0 \<le> w \<Longrightarrow> int (length (str_mul h w)) = w"
  by (simp add: str_mul_def length_concat sum_list_replicate)

lemma make_separator_length:
  assumes "length h = 1" "length left = 1" "length center = 1" "length right = 1"
    and "\<forall>w \<in> set spaced_cols. 0 \<le> w" and "spaced_cols \<noteq> []"
  shows "int (length (make_separator h spaced_cols left center right)) = total_of spaced_cols + 2"
proof -
  have "int (sum_list (map length (map (str_mul h) spaced_cols))) = sum_list spaced_cols"
    using assms(5)
  proof (induction spaced_cols)
    case Nil
    then show ?case by simp
  next
    case (Cons w ws)
    then show ?case using str_mul_single_length[OF assms(1), of w] by simp
  qed
  moreover have "int (length spaced_cols - 1) = int (length spaced_cols) - 1"
    using assms(6) by (cases spaced_cols) auto
  ultimately show ?thesis
    using assms(2,3,4) by (simp add: make_separator_def str_join_length total_of_def)
qed

lemma column_width_nonneg: "column_width cells col = Inr w \<Longrightarrow> 0 \<le> w"
proof -
  assume "column_width cells col = Inr w"
  then obtain xs :: "str list" where "py_max (map (\<lambda>line. int (length line)) xs) = Inr w"
    by (auto simp: column_width_def split: sum.splits)
  then have "xs \<noteq> []" and "w = Max (set (map (\<lambda>line. int (length line)) xs))"
    by (auto simp: py_max_Inr)
  then show ?thesis by (cases xs) (auto simp: Max_ge_iff)
qed

lemma layout_widths:
  assumes "layout self rows = Inr (cells, cols_width)"
  shows "\<forall>w \<in> set cols_width. 0 \<le> w"
proof -
  from assms obtain cols where m: "map_err (column_width cells) [0 ..< nat cols] = Inr cols_width"
    by (auto simp: layout_def split: sum.splits prod.splits)
  show ?thesis
  proof
    fix w assume "w \<in> set cols_width"
    then obtain i where i: "i < length cols_width" "w = cols_width ! i"
      by (auto simp: in_set_conv_nth)
    from map_err_Inr[OF m] i have "column_width cells ([0 ..< nat cols] ! i) = Inr w"
      by auto
    then show "0 \<le> w" by (rule column_width_nonneg)
  qed
qed

lemmas reader_defs =
  csv_reader_def parse_reset_def parse_process_char_def start_field_def end_of_field_def
  newline_or_eol_def parse_add_char_def parse_save_field_def field_limit_def

lemmas wrap_defs =
  wrap_def split_chunks_def munge_whitespace_def tw_whitespace_def wrap_chunks.simps
  wrap_line_def blank_def str_isspace_def hyphen_break_def emdash_ahead_def re_letter_def
  re_word_def word_punct_def rfind_hyphen_def

lemmas cell_defs =
  wrap_cell_def escape_def str_splitlines_def is_linebreak_def default_fields_def
  default_border_symbols_def

section \<open>The claims\<close>

text \<open>
  C1.  For rows that are not empty, once the cells are wrapped, the grid is rectangular:
  every row of the grid has \<open>cols\<close> cells, \<open>cols\<close> is the greatest length of a parsed row,
  and the grid row is the wrapped row followed by as many cells \<open>['']\<close> as it was short.
\<close>

theorem grid_rectangular:
  assumes "rows \<noteq> []" and "grid self rows = Inr (cols, cells)"
  shows "cols = int (Max (length ` set rows)) \<and> length cells = length rows \<and>
         (\<forall>row \<in> set cells. int (length row) = cols) \<and>
         (\<forall>i < length rows. \<exists>wrapped.
            map_err (\<lambda>cell. wrap_cell self (Some cell)) (rows ! i) = Inr wrapped \<and>
            length wrapped = length (rows ! i) \<and>
            cells ! i = wrapped @ replicate (nat cols - length (rows ! i)) [[]])"
proof -
  from assms(2) obtain wrapped where w: "wrap_rows self rows = Inr wrapped"
    and m: "py_max (map (\<lambda>row. int (length row)) rows) = Inr cols"
    and c: "cells = map (pad_row cols) wrapped"
    by (auto simp: grid_def split: sum.splits)
  from m have cols: "cols = Max (set (map (\<lambda>row. int (length row)) rows))"
    by (simp add: py_max_Inr)
  have mono: "mono (int :: nat \<Rightarrow> int)" by (simp add: mono_def)
  have cols_eq: "cols = int (Max (length ` set rows))"
    using assms(1) unfolding cols
    by (simp add: mono_Max_commute[OF mono] image_image)
  from map_err_Inr[OF w[unfolded wrap_rows_def]]
  have len: "length wrapped = length rows"
    and each: "\<And>i. i < length rows \<Longrightarrow>
      map_err (\<lambda>cell. wrap_cell self (Some cell)) (rows ! i) = Inr (wrapped ! i)"
    by auto
  have wl: "length (wrapped ! i) = length (rows ! i)" if "i < length rows" for i
    using map_err_Inr[OF each[OF that]] by simp
  have le: "int (length (rows ! i)) \<le> cols" if "i < length rows" for i
    unfolding cols using that by (intro Max_ge) auto
  have pad: "pad_row cols (wrapped ! i) = wrapped ! i @ replicate (nat cols - length (rows ! i)) [[]]"
    if "i < length rows" for i
    using wl[OF that] le[OF that] by (auto simp: pad_row_def str_mul_def nat_diff_distrib')
  have pad_len: "int (length (pad_row cols (wrapped ! i))) = cols" if "i < length rows" for i
    using wl[OF that] le[OF that] by (auto simp: pad_row_def str_mul_def)
  have rect: "\<forall>row \<in> set cells. int (length row) = cols"
    unfolding c using pad_len len by (auto simp: in_set_conv_nth)
  show ?thesis using cols_eq c len each wl pad rect by auto
qed

theorem grid_rectangular_witness:
  "[[[97], [98, 98]], [[99]]] \<noteq> ([] :: str list list) \<and>
   grid default_fields [[[97], [98, 98]], [[99]]] = Inr (2, [[[[97]], [[98, 98]]], [[[99]], [[]]]]) \<and>
   map length [[[[97]], [[98, 98]]], [[[99 :: nat]], [[]]]] = [2, 2]"
proof -
  have h1: "[[[97], [98, 98]], [[99]]] \<noteq> ([] :: str list list)" by simp
  have h2: "grid default_fields [[[97], [98, 98]], [[99]]]
            = Inr (2, [[[[97]], [[98, 98]]], [[[99]], [[]]]])"
    by (simp add: grid_def wrap_rows_def cell_defs py_max_def pad_row_def str_mul_def Let_def)
  from grid_rectangular[OF h1 h2] h1 h2 show ?thesis by simp
qed

text \<open>
  C6.  In a row of height \<open>max_height\<close>, a cell with \<open>delta\<close> lines fewer gets \<open>delta // 2\<close>
  empty lines above and \<open>delta - delta // 2\<close> below under \<open>MIDDLE\<close> (one more below than
  above when \<open>delta\<close> is odd), \<open>delta\<close> empty lines below under \<open>TOP\<close>, and \<open>delta\<close> empty
  lines above under \<open>BOTTOM\<close>; the padded cell has \<open>max_height\<close> lines.
\<close>

theorem spaced_cell_valign:
  assumes "py_max (map (\<lambda>cell. int (length cell)) row) = Inr max_height"
    and "cell \<in> set row"
  shows "let delta = nat max_height - length cell in
     int (length cell) + int delta = max_height \<and>
     spaced_cell MIDDLE max_height cell
       = replicate (delta div 2) [] @ cell @ replicate (delta - delta div 2) [] \<and>
     (odd delta \<longrightarrow> delta - delta div 2 = Suc (delta div 2)) \<and>
     spaced_cell TOP max_height cell = cell @ replicate delta [] \<and>
     spaced_cell BOTTOM max_height cell = replicate delta [] @ cell \<and>
     (\<forall>va. length (spaced_cell va max_height cell) = nat max_height)"
proof -
  from assms have le: "int (length cell) \<le> max_height"
    by (auto simp: py_max_Inr intro!: Max_ge)
  define delta where "delta = nat max_height - length cell"
  have d: "max_height - int (length cell) = int delta"
    using le by (simp add: delta_def)
  have half: "nat (int delta div 2) = delta div 2"
    by (simp add: nat_div_distrib)
  have rest: "nat (int delta - int delta div 2) = delta - delta div 2"
    by (simp add: nat_diff_distrib nat_div_distrib)
  have mid: "spaced_cell MIDDLE max_height cell
       = replicate (delta div 2) [] @ cell @ replicate (delta - delta div 2) []"
    by (simp add: spaced_cell_def Let_def d str_mul_def half rest)
  have top: "spaced_cell TOP max_height cell = cell @ replicate delta []"
    by (simp add: spaced_cell_def Let_def d str_mul_def)
  have bot: "spaced_cell BOTTOM max_height cell = replicate delta [] @ cell"
    by (simp add: spaced_cell_def Let_def d str_mul_def)
  have odd: "odd delta \<longrightarrow> delta - delta div 2 = Suc (delta div 2)"
    by presburger
  have len: "length (spaced_cell va max_height cell) = nat max_height" for va
    using le mid top bot by (cases va) (auto simp: delta_def)
  show ?thesis
    unfolding Let_def delta_def[symmetric] using le mid top bot odd len
    by (simp add: delta_def)
qed

theorem spaced_cell_valign_witness:
  "py_max (map (\<lambda>cell. int (length cell)) [[[97], [98]], [[99]], [[100], [101], [102], [103]]]) = Inr 4 \<and>
   [[99 :: nat]] \<in> set [[[97], [98]], [[99]], [[100], [101], [102], [103]]] \<and>
   spaced_cell MIDDLE 4 [[99]] = [[], [99], [], []]"
proof -
  have h1: "py_max (map (\<lambda>cell. int (length cell))
              [[[97], [98]], [[99 :: nat]], [[100], [101], [102], [103]]]) = Inr 4"
    by (simp add: py_max_def)
  have h2: "[[99 :: nat]] \<in> set [[[97], [98]], [[99]], [[100], [101], [102], [103]]]" by simp
  from spaced_cell_valign[OF h1 h2] h1 h2 show ?thesis
    by (simp add: Let_def numeral_3_eq_3)
qed

text \<open>
  C9.  When the parser returns no rows, \<open>generate\<close> returns the empty string, whatever the
  configuration and the title, and raises nothing.
\<close>

theorem generate_no_rows:
  "get_rows self input = Inr [] \<Longrightarrow> generate self input title = Inr []"
  by (simp add: generate_def render_def)

theorem generate_no_rows_witness:
  "get_rows default_fields [] = Inr [] \<and> generate default_fields [] (Some (py ''T'')) = Inr []"
  using generate_no_rows [of default_fields "[]" "Some (py ''T'')"]
  by (simp add: get_rows_def csv_reader_def default_fields_def parse_reset_def Let_def)

end
